theory Spec2Isabelle
  imports Main
begin

section \<open>Data model (src/my-app/src/lib/supabase.ts)\<close>

text \<open>
  \<^verbatim>\<open>type TimerState = "stopped" | "running" | "paused"\<close> and \<^verbatim>\<open>interface Timer\<close>.
  The two \<^verbatim>\<open>number\<close> fields hold whole seconds (the table columns are
  \<^verbatim>\<open>INTEGER\<close>), so they are integers here, negative values included.
  The field \<^verbatim>\<open>id\<close> is written \<open>id'\<close>, since \<open>id\<close> is the identity function of HOL.
\<close>

datatype TimerState = Stopped | Running | Paused

record Timer =
  id' :: string
  name :: string
  timeRemaining :: int
  totalTime :: int
  state :: TimerState

text \<open>\<^verbatim>\<open>interface TimerPayload\<close>: what \<^verbatim>\<open>broadcastTimers\<close> sends on the channel.\<close>

record TimerPayload =
  payload_timers :: "Timer list"
  lastUpdate :: int

text \<open>
  What the channel hands to the \<^verbatim>\<open>"timer-update"\<close> handler is untyped: the handler tests
  \<^verbatim>\<open>payload && payload.timers && payload.lastUpdate\<close>. A missing (or null) value is
  \<open>None\<close>; an array is truthy in JavaScript even when it is empty; a number is truthy
  unless it is \<open>0\<close>.
\<close>

record Received =
  received_timers :: "Timer list option"
  received_lastUpdate :: "int option"

definition delivered :: "TimerPayload \<Rightarrow> Received option" where
  "delivered p =
     Some \<lparr>received_timers = Some (payload_timers p), received_lastUpdate = Some (lastUpdate p)\<rparr>"

text \<open>\<^verbatim>\<open>interface TimerRow\<close>, the rows of the table \<^verbatim>\<open>timers\<close>.\<close>

record TimerRow =
  row_id :: string
  row_name :: string
  time_remaining :: int
  total_time :: int
  row_state :: TimerState
  display_order :: nat

text \<open>
  The outcome of the query of \<^verbatim>\<open>loadTimersFromDatabase\<close>: the client threw, or it
  returned \<^verbatim>\<open>{ data, error }\<close> with an error, or with data (possibly null).
\<close>

datatype QueryResult = Threw | QueryError | QueryData "TimerRow list option"

definition fromRow :: "TimerRow \<Rightarrow> Timer" where
  "fromRow row =
     \<lparr>id' = row_id row, name = row_name row, timeRemaining = time_remaining row,
      totalTime = total_time row, state = row_state row\<rparr>"

fun loadTimersFromDatabase :: "QueryResult \<Rightarrow> Timer list" where
  "loadTimersFromDatabase Threw = []"
| "loadTimersFromDatabase QueryError = []"
| "loadTimersFromDatabase (QueryData None) = []"
| "loadTimersFromDatabase (QueryData (Some rows)) =
     (if length rows = 0 then [] else map fromRow rows)"

text \<open>The rows that \<^verbatim>\<open>saveTimersToDatabase\<close> inserts, \<^verbatim>\<open>display_order\<close> being the index.\<close>

definition toRow :: "Timer \<Rightarrow> nat \<Rightarrow> TimerRow" where
  "toRow timer index =
     \<lparr>row_id = id' timer, row_name = name timer, time_remaining = timeRemaining timer,
      total_time = totalTime timer, row_state = state timer, display_order = index\<rparr>"

definition saveRows :: "Timer list \<Rightarrow> TimerRow list" where
  "saveRows ts = map (\<lambda>(timer, index). toRow timer index) (zip ts [0..<length ts])"

section \<open>The control page (src/my-app/src/app/page.tsx)\<close>

text \<open>
  The state of one \<^verbatim>\<open>ControlPage\<close>: its React state (\<open>timers\<close>, \<open>customMinutes\<close>,
  \<open>customSeconds\<close>), its refs, the counter \<open>tickCount\<close> of the interval effect, and what
  it has done to the outside: the payloads sent on the channel (\<open>sent\<close>, oldest first),
  the arguments of its calls of \<^verbatim>\<open>saveTimersToDatabase\<close> (\<open>dbWrites\<close>, oldest first) and
  the item \<^verbatim>\<open>"timers"\<close> of the browser's \<^verbatim>\<open>localStorage\<close>. \<open>channelRef\<close> tells whether
  \<^verbatim>\<open>channelRef.current\<close> holds a channel. Every reading of \<^verbatim>\<open>Date.now()\<close> and every
  \<^verbatim>\<open>generateId()\<close> is a parameter of the operation that makes it. Each handler runs to
  its end before the next one starts, and the component is rendered between two of them,
  so the \<^verbatim>\<open>timers.length\<close> a callback closes over is the length of the current list.
\<close>

record ControlPage =
  timers :: "Timer list"
  customMinutes :: int
  customSeconds :: int
  channelRef :: bool
  lastBroadcastTime :: int
  lastReceivedBroadcast :: int
  isCountingRef :: bool
  tickCount :: nat
  sent :: "TimerPayload list"
  dbWrites :: "Timer list list"
  localStorage :: "Timer list option"

definition DEFAULT_TIME :: int where
  "DEFAULT_TIME = 5 * 60"

text \<open>The initial values of \<^verbatim>\<open>useState\<close> and \<^verbatim>\<open>useRef\<close>; \<open>cache\<close> is what the browser holds.\<close>

definition initial :: "string \<Rightarrow> string \<Rightarrow> Timer list option \<Rightarrow> ControlPage" where
  "initial id1 id2 cache =
     \<lparr>timers =
        [\<lparr>id' = id1, name = ''Orador 1'', timeRemaining = DEFAULT_TIME,
          totalTime = DEFAULT_TIME, state = Stopped\<rparr>,
         \<lparr>id' = id2, name = ''Orador 2'', timeRemaining = DEFAULT_TIME,
          totalTime = DEFAULT_TIME, state = Stopped\<rparr>],
      customMinutes = 5, customSeconds = 0, channelRef = False,
      lastBroadcastTime = 0, lastReceivedBroadcast = 0, isCountingRef = False,
      tickCount = 0, sent = [], dbWrites = [], localStorage = cache\<rparr>"

text \<open>The effect that opens the channel stores it in \<^verbatim>\<open>channelRef.current\<close>.\<close>

definition mount :: "string \<Rightarrow> string \<Rightarrow> Timer list option \<Rightarrow> ControlPage" where
  "mount id1 id2 cache = (initial id1 id2 cache)\<lparr>channelRef := True\<rparr>"

text \<open>\<^verbatim>\<open>broadcastTimers(newTimers, saveToDb)\<close>; \<open>now\<close> is its \<^verbatim>\<open>Date.now()\<close>.\<close>

definition broadcastTimers :: "Timer list \<Rightarrow> bool \<Rightarrow> int \<Rightarrow> ControlPage \<Rightarrow> ControlPage" where
  "broadcastTimers newTimers saveToDb now s =
     s\<lparr>dbWrites := (if saveToDb then dbWrites s @ [newTimers] else dbWrites s),
       sent := (if channelRef s
                then sent s @ [\<lparr>payload_timers = newTimers, lastUpdate = now\<rparr>]
                else sent s),
       localStorage := Some newTimers\<rparr>"

text \<open>
  \<^verbatim>\<open>loadInitialData\<close> starts with \<^verbatim>\<open>await testDatabaseConnection()\<close>. The page imports
  that function from \<^verbatim>\<open>@/lib/supabase\<close>, and \<^verbatim>\<open>lib/supabase.ts\<close> has no such export, so
  what the call does is not in the sources: its outcome is the parameter \<open>test\<close>. When
  the awaited call throws or its promise is rejected (as the call of a missing export
  does), \<^verbatim>\<open>loadInitialData\<close> ends there: the store is not read, and nothing is adopted
  or saved. When it completes, the store is queried, with the outcome \<open>q\<close>.
\<close>

datatype Awaited = Resolved | Rejected

definition loadInitialData :: "Awaited \<Rightarrow> QueryResult \<Rightarrow> ControlPage \<Rightarrow> ControlPage" where
  "loadInitialData test q s =
     (case test of
        Rejected \<Rightarrow> s
      | Resolved \<Rightarrow>
          (let dbTimers = loadTimersFromDatabase q
           in if length dbTimers > 0 then s\<lparr>timers := dbTimers\<rparr>
              else s\<lparr>dbWrites := dbWrites s @ [timers s]\<rparr>))"

text \<open>The page from its mount to the end of \<^verbatim>\<open>loadInitialData\<close>.\<close>

definition bootstrap ::
  "string \<Rightarrow> string \<Rightarrow> Timer list option \<Rightarrow> Awaited \<Rightarrow> QueryResult \<Rightarrow> ControlPage" where
  "bootstrap id1 id2 cache test q = loadInitialData test q (mount id1 id2 cache)"

text \<open>The handler of \<^verbatim>\<open>"timer-update"\<close> broadcasts; \<open>now\<close> is its \<^verbatim>\<open>Date.now()\<close>.\<close>

definition onBroadcast :: "Received option \<Rightarrow> int \<Rightarrow> ControlPage \<Rightarrow> ControlPage" where
  "onBroadcast payload now s =
     (case payload of
        None \<Rightarrow> s
      | Some p \<Rightarrow>
          (case received_timers p of
             None \<Rightarrow> s
           | Some ts \<Rightarrow>
               (case received_lastUpdate p of
                  None \<Rightarrow> s
                | Some lu \<Rightarrow>
                    if lu = 0 then s
                    else if \<bar>lu - lastBroadcastTime s\<bar> > 50
                      then s\<lparr>lastReceivedBroadcast := now, timers := ts\<rparr>
                      else s)))"

text \<open>
  The test at the head of the interval callback:
  \<^verbatim>\<open>timeSinceLastBroadcast < 2000 && lastReceivedBroadcast.current > 0\<close>.
\<close>

definition anotherDeviceCounting :: "int \<Rightarrow> ControlPage \<Rightarrow> bool" where
  "anotherDeviceCounting now s =
     (now - lastReceivedBroadcast s < 2000 \<and> lastReceivedBroadcast s > 0)"

definition hasRunning :: "Timer list \<Rightarrow> bool" where
  "hasRunning prev = list_ex (\<lambda>t. state t = Running) prev"

definition countdown :: "Timer \<Rightarrow> Timer" where
  "countdown timer =
     (if state timer = Running then timer\<lparr>timeRemaining := timeRemaining timer - 1\<rparr>
      else timer)"

text \<open>
  One run of the interval callback. \<open>now\<close> is the \<^verbatim>\<open>Date.now()\<close> at its head, \<open>bnow\<close> the
  one inside \<^verbatim>\<open>broadcastTimers\<close>.
\<close>

definition tick :: "int \<Rightarrow> int \<Rightarrow> ControlPage \<Rightarrow> ControlPage" where
  "tick now bnow s =
     (if anotherDeviceCounting now s then s
      else if \<not> hasRunning (timers s) then s\<lparr>isCountingRef := False\<rparr>
      else
        (let updated = map countdown (timers s);
             s1 = s\<lparr>isCountingRef := True, tickCount := tickCount s + 1,
                    lastBroadcastTime := now\<rparr>;
             saveToDb = (tickCount s1 mod 5 = 0)
         in (broadcastTimers updated saveToDb bnow s1)\<lparr>timers := updated\<rparr>))"

text \<open>Consecutive runs of the callback, each with its two clock readings.\<close>

fun ticks :: "(int \<times> int) list \<Rightarrow> ControlPage \<Rightarrow> ControlPage" where
  "ticks [] s = s"
| "ticks ((now, bnow) # clk) s = ticks clk (tick now bnow s)"

text \<open>The participant passes the test (counts down itself) at each of these runs.\<close>

fun leaderRun :: "(int \<times> int) list \<Rightarrow> ControlPage \<Rightarrow> bool" where
  "leaderRun [] s = True"
| "leaderRun ((now, bnow) # clk) s =
     (\<not> anotherDeviceCounting now s \<and> leaderRun clk (tick now bnow s))"

subsection \<open>The operations of the buttons\<close>

text \<open>
  Each one is \<^verbatim>\<open>setTimers(prev => { ...; broadcastTimers(updated); return updated })\<close>:
  \<open>publish\<close> is that frame, with \<^verbatim>\<open>saveToDb\<close> at its default \<^verbatim>\<open>true\<close>.
\<close>

definition publish :: "Timer list \<Rightarrow> int \<Rightarrow> ControlPage \<Rightarrow> ControlPage" where
  "publish updated bnow s = (broadcastTimers updated True bnow s)\<lparr>timers := updated\<rparr>"

definition startTimer :: "string \<Rightarrow> int \<Rightarrow> int \<Rightarrow> ControlPage \<Rightarrow> ControlPage" where
  "startTimer timerId now bnow s =
     (let s1 = s\<lparr>lastReceivedBroadcast := 0, lastBroadcastTime := now\<rparr>
      in publish
           (map (\<lambda>t. if id' t = timerId \<and> timeRemaining t > 0 then t\<lparr>state := Running\<rparr> else t)
              (timers s1))
           bnow s1)"

definition pauseTimer :: "string \<Rightarrow> int \<Rightarrow> ControlPage \<Rightarrow> ControlPage" where
  "pauseTimer timerId bnow s =
     publish (map (\<lambda>t. if id' t = timerId then t\<lparr>state := Paused\<rparr> else t) (timers s)) bnow s"

definition resetTimer :: "string \<Rightarrow> int \<Rightarrow> ControlPage \<Rightarrow> ControlPage" where
  "resetTimer timerId bnow s =
     publish
       (map (\<lambda>t. if id' t = timerId then t\<lparr>timeRemaining := totalTime t, state := Stopped\<rparr> else t)
          (timers s))
       bnow s"

definition resetAll :: "int \<Rightarrow> ControlPage \<Rightarrow> ControlPage" where
  "resetAll bnow s =
     publish (map (\<lambda>t. t\<lparr>timeRemaining := totalTime t, state := Stopped\<rparr>) (timers s)) bnow s"

definition pauseAll :: "int \<Rightarrow> ControlPage \<Rightarrow> ControlPage" where
  "pauseAll bnow s =
     publish
       (map (\<lambda>t. t\<lparr>state := (if state t = Running then Paused else state t)\<rparr>) (timers s))
       bnow s"

definition updateTimerName :: "string \<Rightarrow> string \<Rightarrow> int \<Rightarrow> ControlPage \<Rightarrow> ControlPage" where
  "updateTimerName timerId newName bnow s =
     publish (map (\<lambda>t. if id' t = timerId then t\<lparr>name := newName\<rparr> else t) (timers s)) bnow s"

definition updateTimerTime :: "string \<Rightarrow> int \<Rightarrow> int \<Rightarrow> int \<Rightarrow> ControlPage \<Rightarrow> ControlPage" where
  "updateTimerTime timerId minutes seconds bnow s =
     (let totalSeconds = minutes * 60 + seconds
      in publish
           (map (\<lambda>t. if id' t = timerId
                      then t\<lparr>timeRemaining := totalSeconds, totalTime := totalSeconds,
                             state := Stopped\<rparr>
                      else t)
              (timers s))
           bnow s)"

text \<open>The decimal digits of \<^verbatim>\<open>timers.length + 1\<close> in the template string of \<^verbatim>\<open>addTimer\<close>.\<close>

fun toString :: "nat \<Rightarrow> string" where
  "toString n =
     (if n < 10 then [char_of (48 + n)]
      else toString (n div 10) @ [char_of (48 + n mod 10)])"

definition addTimer :: "string \<Rightarrow> int \<Rightarrow> ControlPage \<Rightarrow> ControlPage" where
  "addTimer newId bnow s =
     (let totalSeconds = customMinutes s * 60 + customSeconds s;
          newTimer = \<lparr>id' = newId, name = ''Orador '' @ toString (length (timers s) + 1),
                      timeRemaining = totalSeconds, totalTime = totalSeconds, state = Stopped\<rparr>
      in publish (timers s @ [newTimer]) bnow s)"

definition removeTimer :: "string \<Rightarrow> int \<Rightarrow> ControlPage \<Rightarrow> ControlPage" where
  "removeTimer timerId bnow s =
     (if length (timers s) \<le> 1 then s
      else publish (filter (\<lambda>t. id' t \<noteq> timerId) (timers s)) bnow s)"

subsection \<open>Sample runs\<close>

text \<open>
  A page that has removed its second timer, set the first one to ten seconds and started
  it; and twelve runs of the interval callback, one second apart.
\<close>

definition lone_runner :: ControlPage where
  "lone_runner =
     startTimer ''a'' 1000 1001
       (updateTimerTime ''a'' 0 10 900 (removeTimer ''b'' 800 (mount ''a'' ''b'' None)))"

definition twelve_seconds :: "(int \<times> int) list" where
  "twelve_seconds =
     [(2000, 2001), (3000, 3001), (4000, 4002), (5000, 5001), (6000, 6001), (7000, 7003),
      (8000, 8001), (9000, 9001), (10000, 10001), (11000, 11002), (12000, 12001),
      (13000, 13001)]"

text \<open>
  A payload of another device with two running timers; the page that has accepted it at
  time 1000; what a browser may hold in its cache; and that payload with the timestamp 0.
\<close>

definition remote_update :: TimerPayload where
  "remote_update =
     \<lparr>payload_timers =
        [\<lparr>id' = ''x'', name = ''Orador 1'', timeRemaining = 60, totalTime = 60, state = Running\<rparr>,
         \<lparr>id' = ''y'', name = ''Orador 2'', timeRemaining = 45, totalTime = 60, state = Running\<rparr>],
      lastUpdate = 900\<rparr>"

definition follower_page :: ControlPage where
  "follower_page = onBroadcast (delivered remote_update) 1000 (mount ''a'' ''b'' None)"

definition cached_set :: "Timer list" where
  "cached_set =
     [\<lparr>id' = ''k'', name = ''Orador 1'', timeRemaining = 42, totalTime = 60, state = Paused\<rparr>]"


text \<open>
  The lone runner after three runs of the interval callback, and the twelve runs that
  follow them.
\<close>

definition warmed_up :: ControlPage where
  "warmed_up = ticks [(2000, 2001), (3000, 3001), (4000, 4002)] lone_runner"

definition next_twelve_seconds :: "(int \<times> int) list" where
  "next_twelve_seconds =
     [(5000, 5001), (6000, 6001), (7000, 7003), (8000, 8001), (9000, 9001), (10000, 10001),
      (11000, 11002), (12000, 12001), (13000, 13001), (14000, 14001), (15000, 15002),
      (16000, 16001)]"

text \<open>
  A page that has started both of its timers and counted down once, at time 2000; and
  that page after it has paused its first timer at time 2200.
\<close>

definition busy_leader :: ControlPage where
  "busy_leader =
     tick 2000 2001
       (startTimer ''b'' 1500 1501 (startTimer ''a'' 1000 1001 (mount ''a'' ''b'' None)))"

definition paused_leader :: ControlPage where
  "paused_leader = pauseTimer ''a'' 2200 busy_leader"

subsection \<open>Reachable states\<close>

text \<open>
  A Timer Set: a sequence of timers that is not empty and has no id twice.
\<close>

definition timerSet :: "Timer list \<Rightarrow> bool" where
  "timerSet ts = (ts \<noteq> [] \<and> distinct (map id' ts))"

text \<open>
  The states a control page can be in, when every page on the channel runs this code:
  it is mounted with two default timers (\<^verbatim>\<open>generateId\<close> gives them different ids), and
  then the store answers its query (the rows have different ids, \<^verbatim>\<open>id\<close> being the primary
  key of the table), a payload arrives that some page in such a state has sent, the
  interval fires, or a button is pressed or a field typed in. \<^verbatim>\<open>addTimer\<close> gets from
  \<^verbatim>\<open>generateId\<close> an id that the set does not hold yet.
\<close>

inductive reachable :: "ControlPage \<Rightarrow> bool" where
  mounted: "id1 \<noteq> id2 \<Longrightarrow> reachable (mount id1 id2 cache)"
| loaded: "reachable s \<Longrightarrow> distinct (map id' (loadTimersFromDatabase q)) \<Longrightarrow>
    reachable (loadInitialData test q s)"
| received: "reachable s \<Longrightarrow> reachable s' \<Longrightarrow> p \<in> set (sent s') \<Longrightarrow>
    reachable (onBroadcast (delivered p) now s)"
| ticked: "reachable s \<Longrightarrow> reachable (tick now bnow s)"
| started: "reachable s \<Longrightarrow> reachable (startTimer timerId now bnow s)"
| paused: "reachable s \<Longrightarrow> reachable (pauseTimer timerId bnow s)"
| reset: "reachable s \<Longrightarrow> reachable (resetTimer timerId bnow s)"
| resetAll: "reachable s \<Longrightarrow> reachable (resetAll bnow s)"
| pausedAll: "reachable s \<Longrightarrow> reachable (pauseAll bnow s)"
| renamed: "reachable s \<Longrightarrow> reachable (updateTimerName timerId newName bnow s)"
| retimed: "reachable s \<Longrightarrow> reachable (updateTimerTime timerId minutes seconds bnow s)"
| added: "reachable s \<Longrightarrow> newId \<notin> id' ` set (timers s) \<Longrightarrow> reachable (addTimer newId bnow s)"
| removed: "reachable s \<Longrightarrow> reachable (removeTimer timerId bnow s)"
| typed: "reachable s \<Longrightarrow> reachable (s\<lparr>customMinutes := m, customSeconds := sec\<rparr>)"

text \<open>The invariant of these states: the set held and every set sent are Timer Sets.\<close>

definition wellFormed :: "ControlPage \<Rightarrow> bool" where
  "wellFormed s = (timerSet (timers s) \<and> list_all (\<lambda>p. timerSet (payload_timers p)) (sent s))"

section \<open>Basic facts\<close>

lemma timers_publish: "timers (publish updated bnow s) = updated"
  by (simp add: publish_def)

lemma countdown_idle: "\<not> hasRunning ts \<Longrightarrow> map countdown ts = ts"
  by (induction ts) (auto simp add: hasRunning_def countdown_def)

lemma hasRunning_countdown: "hasRunning (map countdown ts) = hasRunning ts"
  by (induction ts) (auto simp add: hasRunning_def countdown_def)

lemma countdown_funpow:
  "(countdown ^^ n) t =
     (if state t = Running then t\<lparr>timeRemaining := timeRemaining t - int n\<rparr> else t)"
  by (induction n) (auto simp add: countdown_def)

lemma timers_tick:
  "\<not> anotherDeviceCounting now s \<Longrightarrow> timers (tick now bnow s) = map countdown (timers s)"
  by (simp add: tick_def Let_def countdown_idle)

lemma lastReceivedBroadcast_tick:
  "lastReceivedBroadcast (tick now bnow s) = lastReceivedBroadcast s"
  by (simp add: tick_def Let_def broadcastTimers_def)

text \<open>A page that has never accepted a broadcast counts down at every run.\<close>

lemma leaderRun_unmarked: "lastReceivedBroadcast s = 0 \<Longrightarrow> leaderRun clk s"
proof (induction clk arbitrary: s)
  case Nil
  show ?case by simp
next
  case (Cons c clk)
  obtain now bnow where c: "c = (now, bnow)" by (cases c)
  have "leaderRun clk (tick now bnow s)"
    by (rule Cons.IH) (simp add: lastReceivedBroadcast_tick Cons.prems)
  then show ?case
    by (simp add: c anotherDeviceCounting_def Cons.prems)
qed

lemma timers_ticks:
  "leaderRun clk s \<Longrightarrow> timers (ticks clk s) = map (countdown ^^ length clk) (timers s)"
proof (induction clk arbitrary: s)
  case Nil
  then show ?case by simp
next
  case (Cons c clk)
  obtain now bnow where c: "c = (now, bnow)" by (cases c)
  from Cons.prems c have lead: "\<not> anotherDeviceCounting now s"
    and run: "leaderRun clk (tick now bnow s)" by simp_all
  have "timers (ticks (c # clk) s) = map (countdown ^^ length clk) (timers (tick now bnow s))"
    using Cons.IH [OF run] c by simp
  also have "\<dots> = map (countdown ^^ length clk) (map countdown (timers s))"
    by (simp only: timers_tick [OF lead])
  also have "\<dots> = map (countdown ^^ length (c # clk)) (timers s)"
    by (simp add: funpow_swap1)
  finally show ?case .
qed

text \<open>A run of the callback that counts down, effect by effect.\<close>

lemma tick_busy:
  assumes "\<not> anotherDeviceCounting now s" and "hasRunning (timers s)"
  shows "tickCount (tick now bnow s) = Suc (tickCount s)"
    and "channelRef (tick now bnow s) = channelRef s"
    and "sent (tick now bnow s) =
      (if channelRef s
       then sent s @ [\<lparr>payload_timers = map countdown (timers s), lastUpdate = bnow\<rparr>]
       else sent s)"
    and "dbWrites (tick now bnow s) =
      (if Suc (tickCount s) mod 5 = 0 then dbWrites s @ [map countdown (timers s)]
       else dbWrites s)"
  using assms by (simp_all add: tick_def Let_def broadcastTimers_def)

lemma filter_upt_shift:
  "filter P [Suc 0..<Suc (Suc n)] =
     (if P (Suc 0) then [Suc 0] else []) @ map Suc (filter (\<lambda>j. P (Suc j)) [Suc 0..<Suc n])"
proof -
  have "[Suc 0..<Suc (Suc n)] = Suc 0 # map Suc [Suc 0..<Suc n]"
    by (simp add: upt_conv_Cons map_Suc_upt del: upt_Suc)
  then show ?thesis
    by (simp add: filter_map comp_def del: upt_Suc)
qed

text \<open>
  Any number of consecutive runs that all count down: the \<open>j\<close>-th of them writes to the
  store exactly when the counter reaches a multiple of five there.
\<close>

lemma ticks_busy:
  "leaderRun clk s \<Longrightarrow> hasRunning (timers s) \<Longrightarrow> channelRef s \<Longrightarrow>
     tickCount (ticks clk s) = tickCount s + length clk
     \<and> length (sent (ticks clk s)) = length (sent s) + length clk
     \<and> take (length (sent s)) (sent (ticks clk s)) = sent s
     \<and> dbWrites (ticks clk s) =
         dbWrites s @
         map (\<lambda>j. map (countdown ^^ j) (timers s))
           (filter (\<lambda>j. (tickCount s + j) mod 5 = 0) [1..<Suc (length clk)])"
proof (induction clk arbitrary: s)
  case Nil
  then show ?case by simp
next
  case (Cons c clk)
  obtain now bnow where c: "c = (now, bnow)" by (cases c)
  let ?s = "tick now bnow s"
  from Cons.prems c have lead: "\<not> anotherDeviceCounting now s"
    and run: "leaderRun clk ?s" by simp_all
  note step = tick_busy [OF lead Cons.prems(2), of bnow]
  have ts: "timers ?s = map countdown (timers s)"
    by (rule timers_tick [OF lead])
  have busy: "hasRunning (timers ?s)"
    using Cons.prems(2) by (simp add: ts hasRunning_countdown)
  have chan: "channelRef ?s"
    using Cons.prems(3) by (simp add: step)
  note IH = Cons.IH [OF run busy chan]
  have sent_s:
    "sent ?s = sent s @ [\<lparr>payload_timers = map countdown (timers s), lastUpdate = bnow\<rparr>]"
    using Cons.prems(3) by (simp add: step)
  have 1: "tickCount (ticks (c # clk) s) = tickCount s + length (c # clk)"
    using IH by (simp add: c step)
  have 2: "length (sent (ticks (c # clk) s)) = length (sent s) + length (c # clk)"
    using IH by (simp add: c sent_s)
  have "take (length (sent s)) (take (length (sent ?s)) (sent (ticks clk ?s))) = sent s"
    using IH by (simp add: sent_s)
  then have 3: "take (length (sent s)) (sent (ticks (c # clk) s)) = sent s"
    by (simp add: c sent_s min_def)
  have 4: "dbWrites (ticks (c # clk) s) =
         dbWrites s @
         map (\<lambda>j. map (countdown ^^ j) (timers s))
           (filter (\<lambda>j. (tickCount s + j) mod 5 = 0) [1..<Suc (length (c # clk))])"
  proof -
    have "dbWrites (ticks (c # clk) s) =
        dbWrites ?s @
         map (\<lambda>j. map (countdown ^^ j) (map countdown (timers s)))
           (filter (\<lambda>j. (Suc (tickCount s) + j) mod 5 = 0) [1..<Suc (length clk)])"
      using IH by (simp add: c ts step(1))
    also have "\<dots> = dbWrites s @
         map (\<lambda>j. map (countdown ^^ j) (timers s))
           (filter (\<lambda>j. (tickCount s + j) mod 5 = 0) [1..<Suc (Suc (length clk))])"
      by (simp add: step(4) filter_upt_shift [of _ "length clk"] comp_def funpow_swap1
            del: upt_Suc)
    finally show ?thesis by simp
  qed
  from 1 2 3 4 show ?case by blast
qed

text \<open>
  The runs, among twelve, at which the counter reaches a multiple of five, by the value
  \<open>c\<close> of the counter before them.
\<close>

lemma write_positions:
  "filter (\<lambda>j. (c + j) mod 5 = 0) [1..<Suc 12] =
     (if c mod 5 = 0 then [5, 10]
      else if c mod 5 = 1 then [4, 9]
      else if c mod 5 = 2 then [3, 8]
      else if c mod 5 = 3 then [2, 7, 12]
      else [1, 6, 11::nat])"
proof -
  have shift: "filter (\<lambda>j. (c + j) mod 5 = 0) [1..<Suc 12] =
      filter (\<lambda>j. (c mod 5 + j) mod 5 = 0) [1..<Suc 12]"
    by (simp only: mod_add_left_eq)
  have r0: "filter (\<lambda>j. (0 + j) mod 5 = 0) [1..<Suc 12] = [5, 10::nat]" by code_simp
  have r1: "filter (\<lambda>j. (1 + j) mod 5 = 0) [1..<Suc 12] = [4, 9::nat]" by code_simp
  have r2: "filter (\<lambda>j. (2 + j) mod 5 = 0) [1..<Suc 12] = [3, 8::nat]" by code_simp
  have r3: "filter (\<lambda>j. (3 + j) mod 5 = 0) [1..<Suc 12] = [2, 7, 12::nat]" by code_simp
  have r4: "filter (\<lambda>j. (4 + j) mod 5 = 0) [1..<Suc 12] = [1, 6, 11::nat]" by code_simp
  have "c mod 5 < 5" by simp
  then consider "c mod 5 = 0" | "c mod 5 = 1" | "c mod 5 = 2" | "c mod 5 = 3" | "c mod 5 = 4"
    by linarith
  then show ?thesis
  proof cases
    case 1
    have "filter (\<lambda>j. (c + j) mod 5 = 0) [1..<Suc 12] = [5, 10]"
      unfolding shift 1 by (rule r0)
    then show ?thesis by (simp only: 1) simp
  next
    case 2
    have "filter (\<lambda>j. (c + j) mod 5 = 0) [1..<Suc 12] = [4, 9]"
      unfolding shift 2 by (rule r1)
    then show ?thesis by (simp only: 2) simp
  next
    case 3
    have "filter (\<lambda>j. (c + j) mod 5 = 0) [1..<Suc 12] = [3, 8]"
      unfolding shift 3 by (rule r2)
    then show ?thesis by (simp only: 3) simp
  next
    case 4
    have "filter (\<lambda>j. (c + j) mod 5 = 0) [1..<Suc 12] = [2, 7, 12]"
      unfolding shift 4 by (rule r3)
    then show ?thesis by (simp only: 4) simp
  next
    case 5
    have "filter (\<lambda>j. (c + j) mod 5 = 0) [1..<Suc 12] = [1, 6, 11]"
      unfolding shift 5 by (rule r4)
    then show ?thesis by (simp only: 5) simp
  qed
qed

lemma lone_runner_timers:
  "timers lone_runner =
     [\<lparr>id' = ''a'', name = ''Orador 1'', timeRemaining = 10, totalTime = 10, state = Running\<rparr>]"
  by (simp add: lone_runner_def startTimer_def updateTimerTime_def removeTimer_def mount_def
        initial_def publish_def broadcastTimers_def Let_def)

lemma lone_runner_refs:
  "lastReceivedBroadcast lone_runner = 0 \<and> tickCount lone_runner = 0 \<and> channelRef lone_runner"
  by (simp add: lone_runner_def startTimer_def updateTimerTime_def removeTimer_def mount_def
        initial_def publish_def broadcastTimers_def Let_def)

lemma channelRef_tick: "channelRef (tick now bnow s) = channelRef s"
  by (simp add: tick_def Let_def broadcastTimers_def)

lemma hasRunning_funpow: "hasRunning (map (countdown ^^ n) ts) = hasRunning ts"
proof (induction n)
  case 0
  show ?case by simp
next
  case (Suc n)
  have "map (countdown ^^ Suc n) ts = map countdown (map (countdown ^^ n) ts)"
    by simp
  then show ?case
    by (simp only: hasRunning_countdown Suc.IH)
qed

lemma hasRunning_ticks:
  "leaderRun clk s \<Longrightarrow> hasRunning (timers (ticks clk s)) = hasRunning (timers s)"
  by (simp only: timers_ticks hasRunning_funpow)

lemma lone_runner_lastBroadcastTime: "lastBroadcastTime lone_runner = 1000"
  by (simp add: lone_runner_def startTimer_def updateTimerTime_def removeTimer_def mount_def
        initial_def publish_def broadcastTimers_def Let_def)

lemma follower_page_eq:
  "follower_page =
     (mount ''a'' ''b'' None)\<lparr>lastReceivedBroadcast := 1000, timers := payload_timers remote_update\<rparr>"
  by (simp add: follower_page_def onBroadcast_def delivered_def remote_update_def mount_def
        initial_def)

lemma lastReceivedBroadcast_publish:
  "lastReceivedBroadcast (publish updated bnow s) = lastReceivedBroadcast s"
  by (simp add: publish_def broadcastTimers_def)

lemma tick_skipped: "anotherDeviceCounting now s \<Longrightarrow> tick now bnow s = s"
  by (simp add: tick_def)


lemma warmed_up_facts:
  "tickCount warmed_up = 3 \<and> channelRef warmed_up \<and> hasRunning (timers warmed_up)
   \<and> lastReceivedBroadcast warmed_up = 0"
proof -
  have run: "leaderRun [(2000, 2001), (3000, 3001), (4000, 4002)] lone_runner"
    by (rule leaderRun_unmarked) (simp add: lone_runner_refs)
  have busy: "hasRunning (timers lone_runner)"
    by (simp add: lone_runner_timers hasRunning_def)
  have chan: "channelRef lone_runner"
    by (simp add: lone_runner_refs)
  from ticks_busy [OF run busy chan] have "tickCount warmed_up = 3"
    by (simp add: warmed_up_def lone_runner_refs)
  moreover have "hasRunning (timers warmed_up)"
    unfolding warmed_up_def by (simp only: hasRunning_ticks [OF run] busy)
  moreover have "lastReceivedBroadcast warmed_up = 0"
    by (simp add: warmed_up_def lastReceivedBroadcast_tick lone_runner_refs)
  moreover have "channelRef warmed_up"
    by (simp add: warmed_up_def channelRef_tick lone_runner_refs)
  ultimately show ?thesis by simp
qed




lemma busy_leader_facts:
  "lastBroadcastTime busy_leader = 2000 \<and> lastReceivedBroadcast busy_leader = 0
   \<and> channelRef busy_leader
   \<and> timers busy_leader =
     [\<lparr>id' = ''a'', name = ''Orador 1'', timeRemaining = 299, totalTime = 300, state = Running\<rparr>,
      \<lparr>id' = ''b'', name = ''Orador 2'', timeRemaining = 299, totalTime = 300, state = Running\<rparr>]"
  by (simp add: busy_leader_def tick_def startTimer_def publish_def broadcastTimers_def
        mount_def initial_def DEFAULT_TIME_def Let_def anotherDeviceCounting_def hasRunning_def
        countdown_def)

subsection \<open>The invariant of the reachable states\<close>

lemma timerSet_map: "(\<And>t. id' (f t) = id' t) \<Longrightarrow> timerSet (map f ts) = timerSet ts"
  by (simp add: timerSet_def comp_def)

lemma wellFormed_publish:
  "wellFormed s \<Longrightarrow> timerSet updated \<Longrightarrow> wellFormed (publish updated bnow s)"
  by (simp add: wellFormed_def publish_def broadcastTimers_def)

lemma filter_keeps_one:
  assumes "distinct (map id' ts)" and "length ts > 1"
  shows "filter (\<lambda>t. id' t \<noteq> x) ts \<noteq> []"
proof (cases ts)
  case Nil
  with assms show ?thesis by simp
next
  case (Cons a as)
  with assms obtain b bs where "as = b # bs" by (cases as) auto
  with Cons assms show ?thesis by auto
qed

lemma timerSet_filter:
  "timerSet ts \<Longrightarrow> length ts > 1 \<Longrightarrow> timerSet (filter (\<lambda>t. id' t \<noteq> x) ts)"
  by (simp add: timerSet_def filter_keeps_one distinct_map_filter)

lemma wellFormed_tick: "wellFormed s \<Longrightarrow> wellFormed (tick now bnow s)"
  by (simp add: wellFormed_def tick_def Let_def broadcastTimers_def timerSet_map countdown_def)

lemma wellFormed_onBroadcast:
  "wellFormed s \<Longrightarrow> timerSet (payload_timers p) \<Longrightarrow> wellFormed (onBroadcast (delivered p) now s)"
  by (simp add: wellFormed_def onBroadcast_def delivered_def)

lemma wellFormed_loadInitialData:
  "wellFormed s \<Longrightarrow> distinct (map id' (loadTimersFromDatabase q)) \<Longrightarrow>
     wellFormed (loadInitialData test q s)"
  by (cases test) (simp_all add: wellFormed_def loadInitialData_def timerSet_def Let_def)

lemma reachable_wellFormed: "reachable s \<Longrightarrow> wellFormed s"
proof (induction rule: reachable.induct)
  case (mounted id1 id2 cache)
  then show ?case by (simp add: wellFormed_def mount_def initial_def timerSet_def)
next
  case (loaded s q test)
  then show ?case by (simp add: wellFormed_loadInitialData)
next
  case (received s s' p now)
  from received.IH(2) received.hyps(3) have "timerSet (payload_timers p)"
    by (simp add: wellFormed_def list_all_iff)
  with received.IH(1) show ?case by (rule wellFormed_onBroadcast)
next
  case (ticked s now bnow)
  then show ?case by (simp add: wellFormed_tick)
next
  case (started s timerId now bnow)
  then have "wellFormed (s\<lparr>lastReceivedBroadcast := 0, lastBroadcastTime := now\<rparr>)"
    by (simp add: wellFormed_def)
  then show ?case
    unfolding startTimer_def Let_def
    by (rule wellFormed_publish) (use started.IH in \<open>simp add: timerSet_map wellFormed_def\<close>)
next
  case (paused s timerId bnow)
  then show ?case
    unfolding pauseTimer_def
    by (intro wellFormed_publish) (simp_all add: timerSet_map wellFormed_def)
next
  case (reset s timerId bnow)
  then show ?case
    unfolding resetTimer_def
    by (intro wellFormed_publish) (simp_all add: timerSet_map wellFormed_def)
next
  case (resetAll s bnow)
  then show ?case
    unfolding resetAll_def
    by (intro wellFormed_publish) (simp_all add: timerSet_map wellFormed_def)
next
  case (pausedAll s bnow)
  then show ?case
    unfolding pauseAll_def
    by (intro wellFormed_publish) (simp_all add: timerSet_map wellFormed_def)
next
  case (renamed s timerId newName bnow)
  then show ?case
    unfolding updateTimerName_def
    by (intro wellFormed_publish) (simp_all add: timerSet_map wellFormed_def)
next
  case (retimed s timerId minutes seconds bnow)
  then show ?case
    unfolding updateTimerTime_def Let_def
    by (intro wellFormed_publish) (simp_all add: timerSet_map wellFormed_def)
next
  case (added s newId bnow)
  then show ?case
    unfolding addTimer_def Let_def
    by (intro wellFormed_publish) (auto simp add: timerSet_def wellFormed_def)
next
  case (removed s timerId bnow)
  show ?case
  proof (cases "length (timers s) \<le> 1")
    case True
    with removed.IH show ?thesis by (simp add: removeTimer_def)
  next
    case False
    with removed.IH have "timerSet (filter (\<lambda>t. id' t \<noteq> timerId) (timers s))"
      by (simp add: timerSet_filter wellFormed_def)
    with removed.IH False show ?thesis
      by (simp add: removeTimer_def wellFormed_publish)
  qed
next
  case (typed s m sec)
  then show ?case by (simp add: wellFormed_def)
qed

lemma remove_found:
  assumes "distinct (map id' ts)" and "x \<in> id' ` set ts"
  shows "\<exists>xs t ys. ts = xs @ t # ys \<and> id' t = x \<and> filter (\<lambda>t. id' t \<noteq> x) ts = xs @ ys"
proof -
  from assms(2) obtain t where t: "t \<in> set ts" "id' t = x" by auto
  then obtain xs ys where split: "ts = xs @ t # ys" by (auto dest: split_list)
  with assms(1) t(2) have "\<forall>u \<in> set xs \<union> set ys. id' u \<noteq> x"
    by (auto simp add: image_iff)
  then have "filter (\<lambda>t. id' t \<noteq> x) ts = xs @ ys"
    by (simp add: split t(2) filter_id_conv)
  with split t(2) show ?thesis by blast
qed

lemma remove_absent: "x \<notin> id' ` set ts \<Longrightarrow> filter (\<lambda>t. id' t \<noteq> x) ts = ts"
  by (auto simp add: filter_id_conv)

section \<open>The countdown of the leader\<close>

text \<open>
  C4. At a run of the interval callback where the page counts down itself (it does not
  take another device to be counting), every running timer has \<open>timeRemaining\<close> one less,
  whatever its value, and is otherwise the same, and every other timer is the same. A
  single running timer at 10 is at -2 after twelve such runs in a row, and still running.
\<close>

theorem tick_leader_countdown:
  "(\<not> anotherDeviceCounting now s \<longrightarrow>
      length (timers (tick now bnow s)) = length (timers s)
      \<and> (\<forall>i < length (timers s).
           (state (timers s ! i) = Running \<longrightarrow>
              timers (tick now bnow s) ! i =
                (timers s ! i)\<lparr>timeRemaining := timeRemaining (timers s ! i) - 1\<rparr>)
           \<and> (state (timers s ! i) \<noteq> Running \<longrightarrow>
              timers (tick now bnow s) ! i = timers s ! i)))
   \<and> (leaderRun clk s \<and> length clk = 12 \<and> timers s = [t] \<and> state t = Running
        \<and> timeRemaining t = 10 \<longrightarrow>
      timers (ticks clk s) = [t\<lparr>timeRemaining := - 2\<rparr>]
      \<and> state (hd (timers (ticks clk s))) = Running)"
proof -
  have one: "\<not> anotherDeviceCounting now s \<longrightarrow>
      length (timers (tick now bnow s)) = length (timers s)
      \<and> (\<forall>i < length (timers s).
           (state (timers s ! i) = Running \<longrightarrow>
              timers (tick now bnow s) ! i =
                (timers s ! i)\<lparr>timeRemaining := timeRemaining (timers s ! i) - 1\<rparr>)
           \<and> (state (timers s ! i) \<noteq> Running \<longrightarrow>
              timers (tick now bnow s) ! i = timers s ! i))"
    by (simp add: timers_tick countdown_def)
  have twelve: "leaderRun clk s \<and> length clk = 12 \<and> timers s = [t] \<and> state t = Running
        \<and> timeRemaining t = 10 \<longrightarrow>
      timers (ticks clk s) = [t\<lparr>timeRemaining := - 2\<rparr>]
      \<and> state (hd (timers (ticks clk s))) = Running"
    by (simp add: timers_ticks countdown_funpow)
  from one twelve show ?thesis by blast
qed

theorem tick_leader_countdown_witness:
  "timers (tick 2000 2001 lone_runner) =
     [\<lparr>id' = ''a'', name = ''Orador 1'', timeRemaining = 9, totalTime = 10, state = Running\<rparr>]
   \<and> timers (ticks twelve_seconds lone_runner) =
     [\<lparr>id' = ''a'', name = ''Orador 1'', timeRemaining = - 2, totalTime = 10,
       state = Running\<rparr>]"
proof -
  have lead: "\<not> anotherDeviceCounting 2000 lone_runner"
    by (simp add: anotherDeviceCounting_def lone_runner_refs)
  have run: "leaderRun twelve_seconds lone_runner"
    by (rule leaderRun_unmarked) (simp add: lone_runner_refs)
  have len: "length twelve_seconds = 12"
    by (simp add: twelve_seconds_def)
  note inst = tick_leader_countdown
    [of 2000 lone_runner 2001 twelve_seconds "hd (timers lone_runner)"]
  from inst lead have "length (timers (tick 2000 2001 lone_runner)) = 1
      \<and> timers (tick 2000 2001 lone_runner) ! 0 =
        (timers lone_runner ! 0)\<lparr>timeRemaining := timeRemaining (timers lone_runner ! 0) - 1\<rparr>"
    by (simp add: lone_runner_timers)
  then have first: "timers (tick 2000 2001 lone_runner) =
     [\<lparr>id' = ''a'', name = ''Orador 1'', timeRemaining = 9, totalTime = 10, state = Running\<rparr>]"
    by (cases "timers (tick 2000 2001 lone_runner)") (simp_all add: lone_runner_timers)
  from inst run len have "timers (ticks twelve_seconds lone_runner) =
     [\<lparr>id' = ''a'', name = ''Orador 1'', timeRemaining = - 2, totalTime = 10,
       state = Running\<rparr>]"
    by (simp add: lone_runner_timers)
  with first show ?thesis by simp
qed

text \<open>
  C5 as stated fails when the run does not start with the counter at a multiple of five:
  the lone runner has counted down three times, and the twelve runs that follow, all of
  them counting down with a timer running, send twelve payloads and write the store
  three times.
\<close>

theorem persistence_offset_counterexample:
  "tickCount warmed_up = 3
   \<and> hasRunning (timers warmed_up)
   \<and> leaderRun next_twelve_seconds warmed_up
   \<and> length next_twelve_seconds = 12
   \<and> hasRunning (timers (ticks next_twelve_seconds warmed_up))
   \<and> length (sent (ticks next_twelve_seconds warmed_up)) = length (sent warmed_up) + 12
   \<and> length (dbWrites (ticks next_twelve_seconds warmed_up)) = length (dbWrites warmed_up) + 3"
proof -
  have run: "leaderRun next_twelve_seconds warmed_up"
    by (rule leaderRun_unmarked) (simp add: warmed_up_facts)
  have len: "length next_twelve_seconds = 12"
    by (simp add: next_twelve_seconds_def)
  have busy: "hasRunning (timers warmed_up)" and chan: "channelRef warmed_up"
    by (simp_all add: warmed_up_facts)
  have still: "hasRunning (timers (ticks next_twelve_seconds warmed_up))"
    by (simp only: hasRunning_ticks [OF run] busy)
  from ticks_busy [OF run busy chan] write_positions [of "tickCount warmed_up"]
  have "length (sent (ticks next_twelve_seconds warmed_up)) = length (sent warmed_up) + 12
   \<and> length (dbWrites (ticks next_twelve_seconds warmed_up)) = length (dbWrites warmed_up) + 3"
    by (simp add: len warmed_up_facts)
  with run len busy still warmed_up_facts show ?thesis by simp
qed

text \<open>
  C5, amended. Twelve runs of the callback in a row that all count down, with a timer
  running, on a page that holds its channel: twelve payloads are sent after the earlier
  ones, and the store is written at exactly those runs at which the page's counter of
  such runs (\<^verbatim>\<open>tickCount\<close>, which starts at 0 and is never reset) reaches a multiple of
  five, each time with the set of that run. These are two or three runs: two when the
  counter before the run is 0, 1 or 2 above a multiple of five, three otherwise; and
  when it is a multiple of five (as it is at the start), they are the fifth run and the
  tenth. A run with no timer running changes no timer, sends nothing and writes nothing
  to the store or to the cache.
\<close>

theorem persistence_cadence:
  "(channelRef s \<and> hasRunning (timers s) \<and> length clk = 12 \<and> leaderRun clk s \<longrightarrow>
      length (sent (ticks clk s)) = length (sent s) + 12
      \<and> take (length (sent s)) (sent (ticks clk s)) = sent s
      \<and> dbWrites (ticks clk s) =
          dbWrites s @
          map (\<lambda>j. map (countdown ^^ j) (timers s))
            (filter (\<lambda>j. (tickCount s + j) mod 5 = 0) [1..<Suc 12])
      \<and> length (dbWrites (ticks clk s)) =
          length (dbWrites s) + (if tickCount s mod 5 \<le> 2 then 2 else 3)
      \<and> (tickCount s mod 5 = 0 \<longrightarrow>
          dbWrites (ticks clk s) =
            dbWrites s @ [map (countdown ^^ 5) (timers s), map (countdown ^^ 10) (timers s)]))
   \<and> (\<not> hasRunning (timers s) \<longrightarrow>
      timers (tick now bnow s) = timers s \<and> sent (tick now bnow s) = sent s
      \<and> dbWrites (tick now bnow s) = dbWrites s
      \<and> localStorage (tick now bnow s) = localStorage s)"
proof -
  have busy: "channelRef s \<and> hasRunning (timers s) \<and> length clk = 12 \<and> leaderRun clk s \<longrightarrow>
      length (sent (ticks clk s)) = length (sent s) + 12
      \<and> take (length (sent s)) (sent (ticks clk s)) = sent s
      \<and> dbWrites (ticks clk s) =
          dbWrites s @
          map (\<lambda>j. map (countdown ^^ j) (timers s))
            (filter (\<lambda>j. (tickCount s + j) mod 5 = 0) [1..<Suc 12])
      \<and> length (dbWrites (ticks clk s)) =
          length (dbWrites s) + (if tickCount s mod 5 \<le> 2 then 2 else 3)
      \<and> (tickCount s mod 5 = 0 \<longrightarrow>
          dbWrites (ticks clk s) =
            dbWrites s @ [map (countdown ^^ 5) (timers s), map (countdown ^^ 10) (timers s)])"
  proof (intro impI, elim conjE)
    assume a: "channelRef s" "hasRunning (timers s)" "length clk = 12" "leaderRun clk s"
    from ticks_busy [OF a(4) a(2) a(1)] a(3)
    have run: "length (sent (ticks clk s)) = length (sent s) + 12"
      "take (length (sent s)) (sent (ticks clk s)) = sent s"
      "dbWrites (ticks clk s) =
          dbWrites s @
          map (\<lambda>j. map (countdown ^^ j) (timers s))
            (filter (\<lambda>j. (tickCount s + j) mod 5 = 0) [1..<Suc 12])"
      by simp_all
    have count: "length (dbWrites (ticks clk s)) =
          length (dbWrites s) + (if tickCount s mod 5 \<le> 2 then 2 else 3)"
      unfolding run(3) write_positions by simp
    have aligned: "tickCount s mod 5 = 0 \<longrightarrow>
          dbWrites (ticks clk s) =
            dbWrites s @ [map (countdown ^^ 5) (timers s), map (countdown ^^ 10) (timers s)]"
      unfolding run(3) write_positions by simp
    from run count aligned
    show "length (sent (ticks clk s)) = length (sent s) + 12
      \<and> take (length (sent s)) (sent (ticks clk s)) = sent s
      \<and> dbWrites (ticks clk s) =
          dbWrites s @
          map (\<lambda>j. map (countdown ^^ j) (timers s))
            (filter (\<lambda>j. (tickCount s + j) mod 5 = 0) [1..<Suc 12])
      \<and> length (dbWrites (ticks clk s)) =
          length (dbWrites s) + (if tickCount s mod 5 \<le> 2 then 2 else 3)
      \<and> (tickCount s mod 5 = 0 \<longrightarrow>
          dbWrites (ticks clk s) =
            dbWrites s @ [map (countdown ^^ 5) (timers s), map (countdown ^^ 10) (timers s)])"
      by blast
  qed
  have idle: "\<not> hasRunning (timers s) \<longrightarrow>
      timers (tick now bnow s) = timers s \<and> sent (tick now bnow s) = sent s
      \<and> dbWrites (tick now bnow s) = dbWrites s
      \<and> localStorage (tick now bnow s) = localStorage s"
    by (simp add: tick_def)
  from busy idle show ?thesis by blast
qed

theorem persistence_cadence_witness:
  "length (sent (ticks twelve_seconds lone_runner)) = length (sent lone_runner) + 12
   \<and> dbWrites (ticks twelve_seconds lone_runner) =
       dbWrites lone_runner @
       [[\<lparr>id' = ''a'', name = ''Orador 1'', timeRemaining = 5, totalTime = 10,
          state = Running\<rparr>],
        [\<lparr>id' = ''a'', name = ''Orador 1'', timeRemaining = 0, totalTime = 10,
          state = Running\<rparr>]]
   \<and> length (dbWrites (ticks next_twelve_seconds warmed_up)) = length (dbWrites warmed_up) + 3
   \<and> sent (tick 500 501 (mount ''a'' ''b'' None)) = sent (mount ''a'' ''b'' None)
   \<and> dbWrites (tick 500 501 (mount ''a'' ''b'' None)) = dbWrites (mount ''a'' ''b'' None)"
proof -
  have run: "leaderRun twelve_seconds lone_runner"
    by (rule leaderRun_unmarked) (simp add: lone_runner_refs)
  have len: "length twelve_seconds = 12"
    by (simp add: twelve_seconds_def)
  have busy: "hasRunning (timers lone_runner)"
    by (simp add: lone_runner_timers hasRunning_def)
  have chan: "channelRef lone_runner" and start: "tickCount lone_runner mod 5 = 0"
    by (simp_all add: lone_runner_refs)
  have idle: "\<not> hasRunning (timers (mount ''a'' ''b'' None))"
    by (simp add: mount_def initial_def hasRunning_def)
  have "channelRef lone_runner \<and> hasRunning (timers lone_runner)
      \<and> length twelve_seconds = 12 \<and> leaderRun twelve_seconds lone_runner"
    using run len busy chan by (intro conjI)
  from persistence_cadence [of lone_runner twelve_seconds 0 0, THEN conjunct1, THEN mp, OF this]
    start
  have "length (sent (ticks twelve_seconds lone_runner)) = length (sent lone_runner) + 12
     \<and> dbWrites (ticks twelve_seconds lone_runner) =
       dbWrites lone_runner @
         [map (countdown ^^ 5) (timers lone_runner), map (countdown ^^ 10) (timers lone_runner)]"
    by (elim conjE impE) (assumption, intro conjI)
  then have aligned:
    "length (sent (ticks twelve_seconds lone_runner)) = length (sent lone_runner) + 12
     \<and> dbWrites (ticks twelve_seconds lone_runner) =
       dbWrites lone_runner @
       [[\<lparr>id' = ''a'', name = ''Orador 1'', timeRemaining = 5, totalTime = 10,
          state = Running\<rparr>],
        [\<lparr>id' = ''a'', name = ''Orador 1'', timeRemaining = 0, totalTime = 10,
          state = Running\<rparr>]]"
    by (simp add: lone_runner_timers countdown_funpow)
  have run': "leaderRun next_twelve_seconds warmed_up"
    by (rule leaderRun_unmarked) (simp add: warmed_up_facts)
  have len': "length next_twelve_seconds = 12"
    by (simp add: next_twelve_seconds_def)
  have busy': "hasRunning (timers warmed_up)" and chan': "channelRef warmed_up"
    by (simp_all add: warmed_up_facts)
  have "channelRef warmed_up \<and> hasRunning (timers warmed_up)
      \<and> length next_twelve_seconds = 12 \<and> leaderRun next_twelve_seconds warmed_up"
    using run' len' busy' chan' by (intro conjI)
  from persistence_cadence [of warmed_up next_twelve_seconds 0 0, THEN conjunct1, THEN mp, OF this]
  have "length (dbWrites (ticks next_twelve_seconds warmed_up)) =
      length (dbWrites warmed_up) + (if tickCount warmed_up mod 5 \<le> 2 then 2 else 3)"
    by (elim conjE)
  then have shifted:
    "length (dbWrites (ticks next_twelve_seconds warmed_up)) = length (dbWrites warmed_up) + 3"
    by (simp add: warmed_up_facts)
  from persistence_cadence [of "mount ''a'' ''b'' None" "[]" 500 501] idle
  have "sent (tick 500 501 (mount ''a'' ''b'' None)) = sent (mount ''a'' ''b'' None)
     \<and> dbWrites (tick 500 501 (mount ''a'' ''b'' None)) = dbWrites (mount ''a'' ''b'' None)"
    by simp
  with aligned shifted show ?thesis
    by simp
qed

section \<open>The operations of the buttons\<close>

text \<open>
  C8. \<open>updateTimerTime\<close> (the retime operation) keeps the length of the set; the timer
  with the given id gets \<open>minutes * 60 + seconds\<close> as \<open>timeRemaining\<close> and as \<open>totalTime\<close>
  and the state \<open>Stopped\<close>, whatever its state was, and keeps its id and name; every other
  timer is the same. Retiming the running timer A (50 of 60 left) to 2 minutes 0 seconds
  gives 120 of 120, stopped.
\<close>

theorem updateTimerTime_sets_duration:
  "length (timers (updateTimerTime timerId minutes seconds bnow s)) = length (timers s)
   \<and> (\<forall>i < length (timers s).
        (id' (timers s ! i) = timerId \<longrightarrow>
           timers (updateTimerTime timerId minutes seconds bnow s) ! i =
             \<lparr>id' = id' (timers s ! i), name = name (timers s ! i),
              timeRemaining = minutes * 60 + seconds, totalTime = minutes * 60 + seconds,
              state = Stopped\<rparr>)
        \<and> (id' (timers s ! i) \<noteq> timerId \<longrightarrow>
           timers (updateTimerTime timerId minutes seconds bnow s) ! i = timers s ! i))
   \<and> timers (updateTimerTime ''A'' 2 0 bnow
        (s\<lparr>timers := [\<lparr>id' = ''A'', name = n, timeRemaining = 50, totalTime = 60,
                        state = Running\<rparr>]\<rparr>)) =
      [\<lparr>id' = ''A'', name = n, timeRemaining = 120, totalTime = 120, state = Stopped\<rparr>]"
  by (simp add: updateTimerTime_def timers_publish Let_def)

theorem updateTimerTime_sets_duration_witness:
  "timers (updateTimerTime ''a'' 1 30 2500 lone_runner) ! 0 =
     \<lparr>id' = ''a'', name = ''Orador 1'', timeRemaining = 90, totalTime = 90, state = Stopped\<rparr>
   \<and> timers (updateTimerTime ''b'' 1 30 2500 lone_runner) ! 0 =
     \<lparr>id' = ''a'', name = ''Orador 1'', timeRemaining = 10, totalTime = 10, state = Running\<rparr>"
proof -
  from updateTimerTime_sets_duration [of "''a''" 1 30 2500 lone_runner]
  have "timers (updateTimerTime ''a'' 1 30 2500 lone_runner) ! 0 =
     \<lparr>id' = ''a'', name = ''Orador 1'', timeRemaining = 90, totalTime = 90, state = Stopped\<rparr>"
    by (simp add: lone_runner_timers)
  moreover from updateTimerTime_sets_duration [of "''b''" 1 30 2500 lone_runner]
  have "timers (updateTimerTime ''b'' 1 30 2500 lone_runner) ! 0 =
     \<lparr>id' = ''a'', name = ''Orador 1'', timeRemaining = 10, totalTime = 10, state = Running\<rparr>"
    by (simp add: lone_runner_timers)
  ultimately show ?thesis by simp
qed

text \<open>
  C9. \<open>startTimer\<close> keeps the length of the set. The timer with the given id becomes
  running when its \<open>timeRemaining\<close> is above 0 and is left as it is when it is 0 or
  below; every other timer is the same. When no timer with that id has time left, the
  whole set is the same as before. (The operation returns no error: it is a total
  function to the next state.)
\<close>

theorem startTimer_only_with_time_left:
  "length (timers (startTimer timerId now bnow s)) = length (timers s)
   \<and> (\<forall>i < length (timers s).
        (id' (timers s ! i) = timerId \<and> timeRemaining (timers s ! i) > 0 \<longrightarrow>
           timers (startTimer timerId now bnow s) ! i = (timers s ! i)\<lparr>state := Running\<rparr>)
        \<and> (id' (timers s ! i) = timerId \<and> timeRemaining (timers s ! i) \<le> 0 \<longrightarrow>
           timers (startTimer timerId now bnow s) ! i = timers s ! i)
        \<and> (id' (timers s ! i) \<noteq> timerId \<longrightarrow>
           timers (startTimer timerId now bnow s) ! i = timers s ! i))
   \<and> ((\<forall>t \<in> set (timers s). id' t = timerId \<longrightarrow> timeRemaining t \<le> 0) \<longrightarrow>
        timers (startTimer timerId now bnow s) = timers s)"
proof -
  have ts: "timers (startTimer timerId now bnow s) =
      map (\<lambda>t. if id' t = timerId \<and> timeRemaining t > 0 then t\<lparr>state := Running\<rparr> else t)
        (timers s)"
    by (simp add: startTimer_def timers_publish Let_def)
  have "(\<forall>t \<in> set (timers s). id' t = timerId \<longrightarrow> timeRemaining t \<le> 0) \<longrightarrow>
        timers (startTimer timerId now bnow s) = timers s"
    unfolding ts by (auto intro!: map_idI)
  moreover have "length (timers (startTimer timerId now bnow s)) = length (timers s)"
    unfolding ts by simp
  moreover have "\<forall>i < length (timers s).
        (id' (timers s ! i) = timerId \<and> timeRemaining (timers s ! i) > 0 \<longrightarrow>
           timers (startTimer timerId now bnow s) ! i = (timers s ! i)\<lparr>state := Running\<rparr>)
        \<and> (id' (timers s ! i) = timerId \<and> timeRemaining (timers s ! i) \<le> 0 \<longrightarrow>
           timers (startTimer timerId now bnow s) ! i = timers s ! i)
        \<and> (id' (timers s ! i) \<noteq> timerId \<longrightarrow>
           timers (startTimer timerId now bnow s) ! i = timers s ! i)"
    unfolding ts by simp
  ultimately show ?thesis by blast
qed

theorem startTimer_only_with_time_left_witness:
  "timers (startTimer ''a'' 15000 15001 (ticks twelve_seconds lone_runner)) =
     timers (ticks twelve_seconds lone_runner)
   \<and> timers (startTimer ''a'' 500 501 (mount ''a'' ''b'' None)) ! 0 =
     \<lparr>id' = ''a'', name = ''Orador 1'', timeRemaining = 300, totalTime = 300, state = Running\<rparr>
   \<and> timers (startTimer ''a'' 500 501 (mount ''a'' ''b'' None)) ! 1 =
     \<lparr>id' = ''b'', name = ''Orador 2'', timeRemaining = 300, totalTime = 300, state = Stopped\<rparr>"
proof -
  have run: "leaderRun twelve_seconds lone_runner"
    by (rule leaderRun_unmarked) (simp add: lone_runner_refs)
  have over: "timers (ticks twelve_seconds lone_runner) =
     [\<lparr>id' = ''a'', name = ''Orador 1'', timeRemaining = - 2, totalTime = 10,
       state = Running\<rparr>]"
    using timers_ticks [OF run]
    by (simp add: lone_runner_timers countdown_funpow) (simp add: twelve_seconds_def)
  from startTimer_only_with_time_left
    [of "''a''" 15000 15001 "ticks twelve_seconds lone_runner"]
  have "timers (startTimer ''a'' 15000 15001 (ticks twelve_seconds lone_runner)) =
     timers (ticks twelve_seconds lone_runner)"
    by (simp add: over)
  moreover from startTimer_only_with_time_left [of "''a''" 500 501 "mount ''a'' ''b'' None"]
  have "timers (startTimer ''a'' 500 501 (mount ''a'' ''b'' None)) ! 0 =
     \<lparr>id' = ''a'', name = ''Orador 1'', timeRemaining = 300, totalTime = 300, state = Running\<rparr>
   \<and> timers (startTimer ''a'' 500 501 (mount ''a'' ''b'' None)) ! 1 =
     \<lparr>id' = ''b'', name = ''Orador 2'', timeRemaining = 300, totalTime = 300, state = Stopped\<rparr>"
    by (simp add: mount_def initial_def DEFAULT_TIME_def)
  ultimately show ?thesis by simp
qed

text \<open>
  C7. \<open>removeTimer\<close> on a set of one timer changes nothing. On a Timer Set of more than
  one timer (no id twice) that holds the id, it takes out the timer with that id and
  keeps the timers before it and after it as they are and in their order, and at least
  one timer is left; when the set does not hold the id, the set stays as it is. Every
  set of a reachable state is a Timer Set: it is not empty and has no id twice.
\<close>

theorem removeTimer_keeps_one:
  "(length (timers s) = 1 \<longrightarrow> removeTimer timerId bnow s = s)
   \<and> (length (timers s) > 1 \<and> distinct (map id' (timers s)) \<and> timerId \<in> id' ` set (timers s) \<longrightarrow>
        (\<exists>xs t ys. timers s = xs @ t # ys \<and> id' t = timerId
           \<and> timers (removeTimer timerId bnow s) = xs @ ys)
        \<and> timers (removeTimer timerId bnow s) \<noteq> [])
   \<and> (length (timers s) > 1 \<and> timerId \<notin> id' ` set (timers s) \<longrightarrow>
        timers (removeTimer timerId bnow s) = timers s)
   \<and> (reachable s \<longrightarrow> timers s \<noteq> [] \<and> distinct (map id' (timers s)))"
proof -
  have one: "length (timers s) = 1 \<longrightarrow> removeTimer timerId bnow s = s"
    by (simp add: removeTimer_def)
  have many: "length (timers s) > 1 \<longrightarrow>
      timers (removeTimer timerId bnow s) = filter (\<lambda>t. id' t \<noteq> timerId) (timers s)"
    by (simp add: removeTimer_def timers_publish)
  have found: "length (timers s) > 1 \<and> distinct (map id' (timers s))
        \<and> timerId \<in> id' ` set (timers s) \<longrightarrow>
        (\<exists>xs t ys. timers s = xs @ t # ys \<and> id' t = timerId
           \<and> timers (removeTimer timerId bnow s) = xs @ ys)
        \<and> timers (removeTimer timerId bnow s) \<noteq> []"
    using many remove_found [of "timers s" timerId] filter_keeps_one [of "timers s" timerId]
    by auto
  have absent: "length (timers s) > 1 \<and> timerId \<notin> id' ` set (timers s) \<longrightarrow>
        timers (removeTimer timerId bnow s) = timers s"
    using many remove_absent [of timerId "timers s"] by simp
  have reach: "reachable s \<longrightarrow> timers s \<noteq> [] \<and> distinct (map id' (timers s))"
    using reachable_wellFormed [of s] by (simp add: wellFormed_def timerSet_def)
  from one found absent reach show ?thesis by blast
qed

theorem removeTimer_keeps_one_witness:
  "removeTimer ''a'' 850 (removeTimer ''b'' 800 (mount ''a'' ''b'' None)) =
     removeTimer ''b'' 800 (mount ''a'' ''b'' None)
   \<and> timers (removeTimer ''b'' 800 (mount ''a'' ''b'' None)) \<noteq> []
   \<and> timers (removeTimer ''c'' 800 (mount ''a'' ''b'' None)) = timers (mount ''a'' ''b'' None)
   \<and> timers lone_runner \<noteq> []"
proof -
  let ?m = "mount ''a'' ''b'' None"
  have two: "timers ?m =
     [\<lparr>id' = ''a'', name = ''Orador 1'', timeRemaining = 300, totalTime = 300, state = Stopped\<rparr>,
      \<lparr>id' = ''b'', name = ''Orador 2'', timeRemaining = 300, totalTime = 300, state = Stopped\<rparr>]"
    by (simp add: mount_def initial_def DEFAULT_TIME_def)
  have one: "length (timers (removeTimer ''b'' 800 ?m)) = 1"
    by (simp add: removeTimer_def timers_publish two)
  from removeTimer_keeps_one
    [where s = "removeTimer ''b'' 800 ?m" and timerId = "''a''" and bnow = 850] one
  have sole: "removeTimer ''a'' 850 (removeTimer ''b'' 800 ?m) = removeTimer ''b'' 800 ?m"
    by simp
  from removeTimer_keeps_one [where s = ?m and timerId = "''b''" and bnow = 800]
  have left: "timers (removeTimer ''b'' 800 ?m) \<noteq> []"
    by (simp add: two)
  from removeTimer_keeps_one [where s = ?m and timerId = "''c''" and bnow = 800]
  have absent: "timers (removeTimer ''c'' 800 ?m) = timers ?m"
    by (simp add: two)
  have "reachable lone_runner"
    unfolding lone_runner_def
    by (intro reachable.started reachable.retimed reachable.removed reachable.mounted) simp
  with removeTimer_keeps_one [where s = lone_runner]
  have "timers lone_runner \<noteq> []"
    by simp
  with sole left absent show ?thesis by simp
qed

text \<open>
  C1 as stated fails for \<open>pauseTimer\<close>: a page that has accepted the broadcast of another
  device at time 1000 and pauses a timer at 1200 still has the mark 1000, and at 1500 its
  interval run counts nothing down, although a timer is running.
\<close>

theorem pauseTimer_keeps_mark_counterexample:
  "lastReceivedBroadcast (pauseTimer ''x'' 1200 follower_page) = 1000
   \<and> anotherDeviceCounting 1500 (pauseTimer ''x'' 1200 follower_page)
   \<and> hasRunning (timers (pauseTimer ''x'' 1200 follower_page))
   \<and> tick 1500 1501 (pauseTimer ''x'' 1200 follower_page) = pauseTimer ''x'' 1200 follower_page"
proof -
  have mark: "lastReceivedBroadcast (pauseTimer ''x'' 1200 follower_page) = 1000"
    by (simp add: pauseTimer_def lastReceivedBroadcast_publish follower_page_eq)
  then have skip: "anotherDeviceCounting 1500 (pauseTimer ''x'' 1200 follower_page)"
    by (simp add: anotherDeviceCounting_def)
  have "hasRunning (timers (pauseTimer ''x'' 1200 follower_page))"
    by (simp add: pauseTimer_def timers_publish follower_page_eq remote_update_def
          hasRunning_def)
  with mark skip tick_skipped [OF skip] show ?thesis by simp
qed

text \<open>
  C1, amended. Of the operations of the buttons only \<open>startTimer\<close> clears the mark of the
  last broadcast received from another device: after it the mark is 0, the page passes
  the test at the head of the next interval run whatever the clock reads, and that run
  counts down. \<open>pauseTimer\<close>, \<open>resetTimer\<close>, \<open>resetAll\<close>, \<open>pauseAll\<close>, \<open>updateTimerName\<close>,
  \<open>updateTimerTime\<close>, \<open>addTimer\<close> and \<open>removeTimer\<close> leave the mark as it was.
\<close>

theorem startTimer_alone_clears_mark:
  "lastReceivedBroadcast (startTimer timerId now bnow s) = 0
   \<and> \<not> anotherDeviceCounting now' (startTimer timerId now bnow s)
   \<and> timers (tick now' bnow' (startTimer timerId now bnow s)) =
       map countdown (timers (startTimer timerId now bnow s))
   \<and> lastReceivedBroadcast (pauseTimer timerId bnow s) = lastReceivedBroadcast s
   \<and> lastReceivedBroadcast (resetTimer timerId bnow s) = lastReceivedBroadcast s
   \<and> lastReceivedBroadcast (resetAll bnow s) = lastReceivedBroadcast s
   \<and> lastReceivedBroadcast (pauseAll bnow s) = lastReceivedBroadcast s
   \<and> lastReceivedBroadcast (updateTimerName timerId newName bnow s) = lastReceivedBroadcast s
   \<and> lastReceivedBroadcast (updateTimerTime timerId minutes seconds bnow s) =
       lastReceivedBroadcast s
   \<and> lastReceivedBroadcast (addTimer newId bnow s) = lastReceivedBroadcast s
   \<and> lastReceivedBroadcast (removeTimer timerId bnow s) = lastReceivedBroadcast s"
proof -
  have mark: "lastReceivedBroadcast (startTimer timerId now bnow s) = 0"
    by (simp add: startTimer_def Let_def lastReceivedBroadcast_publish)
  then have lead: "\<not> anotherDeviceCounting now' (startTimer timerId now bnow s)"
    by (simp add: anotherDeviceCounting_def)
  have others: "lastReceivedBroadcast (pauseTimer timerId bnow s) = lastReceivedBroadcast s
   \<and> lastReceivedBroadcast (resetTimer timerId bnow s) = lastReceivedBroadcast s
   \<and> lastReceivedBroadcast (resetAll bnow s) = lastReceivedBroadcast s
   \<and> lastReceivedBroadcast (pauseAll bnow s) = lastReceivedBroadcast s
   \<and> lastReceivedBroadcast (updateTimerName timerId newName bnow s) = lastReceivedBroadcast s
   \<and> lastReceivedBroadcast (updateTimerTime timerId minutes seconds bnow s) =
       lastReceivedBroadcast s
   \<and> lastReceivedBroadcast (addTimer newId bnow s) = lastReceivedBroadcast s
   \<and> lastReceivedBroadcast (removeTimer timerId bnow s) = lastReceivedBroadcast s"
    by (simp add: pauseTimer_def resetTimer_def resetAll_def pauseAll_def updateTimerName_def
          updateTimerTime_def addTimer_def removeTimer_def Let_def lastReceivedBroadcast_publish)
  from mark lead timers_tick [OF lead] others show ?thesis by simp
qed

theorem startTimer_alone_clears_mark_witness:
  "lastReceivedBroadcast (startTimer ''x'' 1200 1201 follower_page) = 0
   \<and> lastReceivedBroadcast (resetAll 1201 follower_page) = 1000"
proof -
  have "lastReceivedBroadcast follower_page = 1000"
    by (simp add: follower_page_eq)
  with startTimer_alone_clears_mark
    [where timerId = "''x''" and now = 1200 and bnow = 1201 and s = follower_page]
  show ?thesis by simp
qed

section \<open>Inbound broadcasts\<close>

text \<open>
  C10. A payload that is null, or has no \<open>timers\<close>, or has no \<open>lastUpdate\<close>, or has the
  \<open>lastUpdate\<close> 0, leaves the page as it was: the set of timers and the mark of the last
  broadcast received from another device are the same, as is everything else. So a
  payload with a set of timers and the timestamp 0 is never applied.
\<close>

theorem onBroadcast_drops_malformed:
  assumes "payload = None
     \<or> (\<exists>p. payload = Some p
           \<and> (received_timers p = None \<or> received_lastUpdate p = None
               \<or> received_lastUpdate p = Some 0))"
  shows "onBroadcast payload now s = s"
  using assms by (auto simp add: onBroadcast_def split: option.splits)

theorem onBroadcast_drops_malformed_witness:
  "onBroadcast
     (Some \<lparr>received_timers = Some (timers (mount ''c'' ''d'' None)),
            received_lastUpdate = Some 0\<rparr>)
     5000 lone_runner = lone_runner
   \<and> onBroadcast None 5000 lone_runner = lone_runner"
proof -
  have "onBroadcast
     (Some \<lparr>received_timers = Some (timers (mount ''c'' ''d'' None)),
            received_lastUpdate = Some 0\<rparr>)
     5000 lone_runner = lone_runner"
    by (rule onBroadcast_drops_malformed) simp
  moreover have "onBroadcast None 5000 lone_runner = lone_runner"
    by (rule onBroadcast_drops_malformed) simp
  ultimately show ?thesis by simp
qed

text \<open>
  C3 as stated fails: a page that accepts the broadcast of another device takes over its
  set of timers, and the \<^verbatim>\<open>localStorage\<close> of its browser does not get that set.
\<close>

theorem onBroadcast_skips_cache_counterexample:
  "\<bar>lastUpdate remote_update - lastBroadcastTime (mount ''a'' ''b'' None)\<bar> > 50
   \<and> timers (onBroadcast (delivered remote_update) 1000 (mount ''a'' ''b'' None)) =
       payload_timers remote_update
   \<and> localStorage (onBroadcast (delivered remote_update) 1000 (mount ''a'' ''b'' None)) \<noteq>
       Some (payload_timers remote_update)"
  by (simp add: onBroadcast_def delivered_def remote_update_def mount_def initial_def)

text \<open>
  C3, amended. When the page accepts a payload (it has a set of timers, its timestamp is
  not 0 and is more than 50 away from the time of the page's last own broadcast), the
  set of timers becomes the payload's and the mark of the last broadcast received
  becomes the time of arrival. Nothing else changes: the store is not written, nothing
  is sent, and \<^verbatim>\<open>localStorage\<close> is not written.
\<close>

theorem onBroadcast_accepted_frame:
  assumes "lu \<noteq> 0" and "\<bar>lu - lastBroadcastTime s\<bar> > 50"
  shows "timers (onBroadcast (Some \<lparr>received_timers = Some ts, received_lastUpdate = Some lu\<rparr>)
             now s) = ts
   \<and> lastReceivedBroadcast
       (onBroadcast (Some \<lparr>received_timers = Some ts, received_lastUpdate = Some lu\<rparr>) now s) = now
   \<and> localStorage
       (onBroadcast (Some \<lparr>received_timers = Some ts, received_lastUpdate = Some lu\<rparr>) now s) =
       localStorage s
   \<and> dbWrites
       (onBroadcast (Some \<lparr>received_timers = Some ts, received_lastUpdate = Some lu\<rparr>) now s) =
       dbWrites s
   \<and> sent (onBroadcast (Some \<lparr>received_timers = Some ts, received_lastUpdate = Some lu\<rparr>) now s) =
       sent s
   \<and> onBroadcast (Some \<lparr>received_timers = Some ts, received_lastUpdate = Some lu\<rparr>) now s =
       s\<lparr>lastReceivedBroadcast := now, timers := ts\<rparr>"
  using assms by (simp add: onBroadcast_def)

theorem onBroadcast_accepted_frame_witness:
  "timers (onBroadcast (delivered remote_update) 7000 lone_runner) = payload_timers remote_update
   \<and> dbWrites (onBroadcast (delivered remote_update) 7000 lone_runner) = dbWrites lone_runner
   \<and> localStorage (onBroadcast (delivered remote_update) 7000 lone_runner) =
       localStorage lone_runner"
proof -
  have far: "\<bar>900 - lastBroadcastTime lone_runner\<bar> > 50"
    by (simp add: lone_runner_lastBroadcastTime)
  have "(900::int) \<noteq> 0" by simp
  from onBroadcast_accepted_frame [OF this far, of "payload_timers remote_update" 7000]
  show ?thesis
    by (simp add: delivered_def) (simp add: remote_update_def)
qed




text \<open>
  The buttons other than start do not record the time of their broadcast. The leader of
  the sample has recorded 2000 at its last run and pauses a timer at 2200: the echo of
  that payload is 200 away from the recorded time, the handler takes it for the
  broadcast of another device, and the run at 3000 counts nothing down although a timer
  is running.
\<close>

lemma pause_echo_taken_for_remote:
  "lastUpdate (last (sent paused_leader)) = 2200
   \<and> lastBroadcastTime paused_leader = 2000
   \<and> lastReceivedBroadcast (onBroadcast (delivered (last (sent paused_leader))) 2210 paused_leader)
       = 2210
   \<and> hasRunning (timers (onBroadcast (delivered (last (sent paused_leader))) 2210 paused_leader))
   \<and> tick 3000 3001 (onBroadcast (delivered (last (sent paused_leader))) 2210 paused_leader) =
       onBroadcast (delivered (last (sent paused_leader))) 2210 paused_leader"
proof -
  have sent_p: "last (sent paused_leader) =
      \<lparr>payload_timers = timers paused_leader, lastUpdate = 2200\<rparr>"
    by (simp add: paused_leader_def pauseTimer_def publish_def broadcastTimers_def
          busy_leader_facts)
  have lbt: "lastBroadcastTime paused_leader = 2000"
    by (simp add: paused_leader_def pauseTimer_def publish_def broadcastTimers_def
          busy_leader_facts)
  have ts: "timers paused_leader =
     [\<lparr>id' = ''a'', name = ''Orador 1'', timeRemaining = 299, totalTime = 300, state = Paused\<rparr>,
      \<lparr>id' = ''b'', name = ''Orador 2'', timeRemaining = 299, totalTime = 300, state = Running\<rparr>]"
    by (simp add: paused_leader_def pauseTimer_def timers_publish busy_leader_facts)
  let ?s = "onBroadcast (delivered (last (sent paused_leader))) 2210 paused_leader"
  have acc: "?s = paused_leader\<lparr>lastReceivedBroadcast := 2210, timers := timers paused_leader\<rparr>"
    by (simp add: sent_p delivered_def onBroadcast_def lbt)
  have mark: "lastReceivedBroadcast ?s = 2210" and run: "hasRunning (timers ?s)"
    by (simp_all add: acc ts hasRunning_def)
  have "anotherDeviceCounting 3000 ?s"
    by (simp add: anotherDeviceCounting_def mark)
  then have "tick 3000 3001 ?s = ?s"
    by (rule tick_skipped)
  with sent_p lbt mark run show ?thesis by simp
qed

section \<open>Bootstrap\<close>

text \<open>When the awaited connection test fails, the page stays as it was mounted.\<close>

lemma bootstrap_rejected: "bootstrap id1 id2 cache Rejected q = mount id1 id2 cache"
  by (simp add: bootstrap_def loadInitialData_def)

text \<open>
  C2 as stated fails: with an empty answer of the store and a set in the browser's
  cache, the control page keeps its two default timers and does not take the cached set,
  whether the connection test completes or not.
\<close>

theorem bootstrap_ignores_cache_counterexample:
  "loadTimersFromDatabase (QueryData (Some [])) = []
   \<and> timers (bootstrap ''a'' ''b'' (Some cached_set) Resolved (QueryData (Some []))) \<noteq>
       cached_set
   \<and> timers (bootstrap ''a'' ''b'' (Some cached_set) Resolved (QueryData (Some []))) =
       timers (initial ''a'' ''b'' None)
   \<and> timers (bootstrap ''a'' ''b'' (Some cached_set) Rejected (QueryData (Some []))) \<noteq>
       cached_set"
  by (simp add: bootstrap_def loadInitialData_def mount_def initial_def cached_set_def)

text \<open>
  C2, amended. At the start of the control page, when the connection test that
  \<^verbatim>\<open>loadInitialData\<close> awaits first completes: a set of timers that the store answers
  becomes the set of the page, and the store is not written; when the store answers
  nothing (no rows, an error, or a failure), the page keeps its default set, two stopped
  timers of 300 seconds named Orador 1 and Orador 2, and writes it to the store, whatever
  the cache holds. The cache is neither read nor written.
\<close>

theorem bootstrap_store_or_defaults:
  "(test = Resolved \<and> loadTimersFromDatabase q \<noteq> [] \<longrightarrow>
      timers (bootstrap id1 id2 cache test q) = loadTimersFromDatabase q
      \<and> dbWrites (bootstrap id1 id2 cache test q) = [])
   \<and> (test = Resolved \<and> loadTimersFromDatabase q = [] \<longrightarrow>
      timers (bootstrap id1 id2 cache test q) =
        [\<lparr>id' = id1, name = ''Orador 1'', timeRemaining = 300, totalTime = 300, state = Stopped\<rparr>,
         \<lparr>id' = id2, name = ''Orador 2'', timeRemaining = 300, totalTime = 300, state = Stopped\<rparr>]
      \<and> dbWrites (bootstrap id1 id2 cache test q) = [timers (bootstrap id1 id2 cache test q)])
   \<and> localStorage (bootstrap id1 id2 cache test q) = cache"
  by (cases test)
    (simp_all add: bootstrap_def loadInitialData_def mount_def initial_def DEFAULT_TIME_def
       Let_def)

theorem bootstrap_store_or_defaults_witness:
  "timers (bootstrap ''a'' ''b'' (Some cached_set) Resolved
      (QueryData (Some (saveRows cached_set)))) = cached_set
   \<and> dbWrites (bootstrap ''a'' ''b'' (Some cached_set) Resolved QueryError) =
     [[\<lparr>id' = ''a'', name = ''Orador 1'', timeRemaining = 300, totalTime = 300, state = Stopped\<rparr>,
       \<lparr>id' = ''b'', name = ''Orador 2'', timeRemaining = 300, totalTime = 300, state = Stopped\<rparr>]]"
proof -
  have stored: "loadTimersFromDatabase (QueryData (Some (saveRows cached_set))) = cached_set"
    by (simp add: saveRows_def cached_set_def toRow_def fromRow_def)
  have nonempty: "cached_set \<noteq> []"
    by (simp add: cached_set_def)
  from bootstrap_store_or_defaults
    [of Resolved "QueryData (Some (saveRows cached_set))" "''a''" "''b''" "Some cached_set",
      unfolded stored]
  have "timers (bootstrap ''a'' ''b'' (Some cached_set) Resolved
      (QueryData (Some (saveRows cached_set)))) = cached_set"
    by (simp only: nonempty not_False_eq_True simp_thms)
  moreover from bootstrap_store_or_defaults
    [of Resolved QueryError "''a''" "''b''" "Some cached_set"]
  have "dbWrites (bootstrap ''a'' ''b'' (Some cached_set) Resolved QueryError) =
     [[\<lparr>id' = ''a'', name = ''Orador 1'', timeRemaining = 300, totalTime = 300, state = Stopped\<rparr>,
       \<lparr>id' = ''b'', name = ''Orador 2'', timeRemaining = 300, totalTime = 300, state = Stopped\<rparr>]]"
    by simp
  ultimately show ?thesis by simp
qed

end
